theory Spec2Isabelle
  imports Complex_Main "HOL-Library.Multiset"
begin

section \<open>Gann time cycle analyzer: scaling, projection, cluster detection\<close>

text \<open>
  The embedding follows \<^verbatim>\<open>streamlit_app.py\<close>. A \<^verbatim>\<open>datetime\<close> at midnight is
  represented by its proleptic Gregorian ordinal (\<^verbatim>\<open>date.toordinal()\<close>: day 1 is
  0001-01-01, day 3652059 is 9999-12-31), so \<^verbatim>\<open>(d_i - d_j).days\<close> is a difference
  of ordinals. The selected angles are the integers of the multiselect, in
  selection order. A data frame is the list of its rows, indexed from 0 as after
  \<^verbatim>\<open>reset_index(drop=True)\<close>; the two cluster columns are lists of the same length.

  The projection loop is given in two readings. \<open>angle_loop\<close>, \<open>swing_loop\<close> and
  \<open>compute_cycles\<close> read Python floats as exact reals, with \<^verbatim>\<open>np.sin\<close> as
  \<^term>\<open>sin\<close> and \<^verbatim>\<open>np.deg2rad\<close> as multiplication by \<^term>\<open>pi / 180\<close>; they
  carry the properties at inputs where the program rounds nothing (a zero price,
  the sine at 90 degrees) and the sorted table. \<open>angle_loop_binary64\<close>,
  \<open>swing_loop_binary64\<close> and \<open>compute_cycles_binary64\<close> follow the program's
  double-precision arithmetic; what depends on rounding is stated on them.
  Infinities and NaN are outside both.
\<close>

subsection \<open>Price scaling\<close>

definition scale_price :: "real \<Rightarrow> real \<times> int" where
  "scale_price price =
     (let d = (if price \<ge> 100000 then 3000
               else if price \<ge> 25000 then 500
               else if price \<ge> 10000 then 100
               else if price \<ge> 1000 then 10
               else if price \<ge> 500 then 2
               else 1)
      in (price / of_int d, d))"

subsection \<open>Rounding\<close>

text \<open>
  Python's \<^verbatim>\<open>round(x)\<close> and \<^verbatim>\<open>round(x, n)\<close> round to the nearest value, a tie
  going to the even neighbour.
\<close>

definition py_round :: "real \<Rightarrow> int" where
  "py_round x =
     (let f = \<lfloor>x\<rfloor>; r = x - of_int f
      in if r < 1 / 2 then f
         else if r > 1 / 2 then f + 1
         else if even f then f else f + 1)"

definition py_round_ndigits :: "real \<Rightarrow> nat \<Rightarrow> real" where
  "py_round_ndigits x n = of_int (py_round (x * 10 ^ n)) / 10 ^ n"

definition deg2rad :: "int \<Rightarrow> real" where
  "deg2rad ang = of_int ang * (pi / 180)"

subsection \<open>Calendar dates\<close>

text \<open>
  The standard library's calendar arithmetic, as far as the program uses it:
  the ordinal of a year-month-day triple and its inverse, and the range check of
  \<^verbatim>\<open>datetime + timedelta\<close>, which raises \<^verbatim>\<open>OverflowError\<close> when the
  day count exceeds 999999999 in magnitude or the result leaves years 1 to 9999.
\<close>

datatype error = OverflowError

definition MAXORDINAL :: int where
  "MAXORDINAL = 3652059"

definition is_leap :: "int \<Rightarrow> bool" where
  "is_leap year = (year mod 4 = 0 \<and> (year mod 100 \<noteq> 0 \<or> year mod 400 = 0))"

definition days_before_year :: "int \<Rightarrow> int" where
  "days_before_year year = (let y = year - 1 in y * 365 + y div 4 - y div 100 + y div 400)"

definition DAYS_IN_MONTH :: "int list" where
  "DAYS_IN_MONTH = [-1, 31, 28, 31, 30, 31, 30, 31, 31, 30, 31, 30, 31]"

definition DAYS_BEFORE_MONTH :: "int list" where
  "DAYS_BEFORE_MONTH = [-1, 0, 31, 59, 90, 120, 151, 181, 212, 243, 273, 304, 334]"

definition days_before_month :: "int \<Rightarrow> nat \<Rightarrow> int" where
  "days_before_month year month =
     DAYS_BEFORE_MONTH ! month + (if month > 2 \<and> is_leap year then 1 else 0)"

definition ymd2ord :: "int \<Rightarrow> nat \<Rightarrow> int \<Rightarrow> int" where
  "ymd2ord year month day = days_before_year year + days_before_month year month + day"

definition ord2ymd :: "int \<Rightarrow> int \<times> nat \<times> int" where
  "ord2ymd n0 =
     (let n = n0 - 1;
          n400 = n div 146097; n = n mod 146097;
          year = n400 * 400 + 1;
          n100 = n div 36524; n = n mod 36524;
          n4 = n div 1461; n = n mod 1461;
          n1 = n div 365; n = n mod 365;
          year = year + n100 * 100 + n4 * 4 + n1
      in if n1 = 4 \<or> n100 = 4 then (year - 1, 12, 31)
         else
           let leapyear = (n1 = 3 \<and> (n4 \<noteq> 24 \<or> n100 = 3));
               month = nat ((n + 50) div 32);
               preceding = DAYS_BEFORE_MONTH ! month + (if month > 2 \<and> leapyear then 1 else 0)
           in if preceding > n
              then let month' = month - 1;
                       preceding' = preceding
                         - (DAYS_IN_MONTH ! month' + (if month' = 2 \<and> leapyear then 1 else 0))
                   in (year, month', n - preceding' + 1)
              else (year, month, n - preceding + 1))"

definition datetime_add_days :: "int \<Rightarrow> int \<Rightarrow> error + int" where
  "datetime_add_days d n =
     (if \<bar>n\<bar> > 999999999 then Inl OverflowError
      else if 0 < d + n \<and> d + n \<le> MAXORDINAL then Inr (d + n)
      else Inl OverflowError)"

subsection \<open>Swings and projected rows\<close>

record swing =
  name :: string
  price :: "real option"
  date :: int

record row =
  Swing :: string
  Price :: real
  Scaled_Price :: real
  Divisor :: int
  Angle :: real
  Days :: int
  Cycle_Date :: int

text \<open>
  The loop over the selected angles for one swing, in exact arithmetic; each pass
  appends one row. Its double-precision reading follows further down.
\<close>

fun angle_loop :: "swing \<Rightarrow> real \<Rightarrow> real \<Rightarrow> int \<Rightarrow> int list \<Rightarrow> row list \<Rightarrow> error + row list" where
  "angle_loop s p scaled divisor [] rows = Inr rows"
| "angle_loop s p scaled divisor (ang # angs) rows =
     (let rad = deg2rad ang;
          days = scaled * sin rad;
          days_r = py_round days
      in case datetime_add_days (date s) days_r of
           Inl e \<Rightarrow> Inl e
         | Inr cycle_date \<Rightarrow>
             angle_loop s p scaled divisor angs
               (rows @ [\<lparr>Swing = name s, Price = p,
                          Scaled_Price = py_round_ndigits scaled 6,
                          Divisor = divisor, Angle = of_int ang,
                          Days = days_r, Cycle_Date = cycle_date\<rparr>]))"

text \<open>The loop over the swings; a swing whose price is \<^verbatim>\<open>None\<close> is skipped.\<close>

fun swing_loop :: "swing list \<Rightarrow> int list \<Rightarrow> row list \<Rightarrow> error + row list" where
  "swing_loop [] selected_angles rows = Inr rows"
| "swing_loop (s # ss) selected_angles rows =
     (case price s of
        None \<Rightarrow> swing_loop ss selected_angles rows
      | Some p \<Rightarrow>
          (case scale_price p of
             (scaled, divisor) \<Rightarrow>
               (case angle_loop s p scaled divisor selected_angles rows of
                  Inl e \<Rightarrow> Inl e
                | Inr rows' \<Rightarrow> swing_loop ss selected_angles rows')))"

definition compute_cycles :: "swing list \<Rightarrow> int list \<Rightarrow> error + row list" where
  "compute_cycles swings selected_angles = swing_loop swings selected_angles []"

subsection \<open>The sorted table\<close>



subsection \<open>Cross-swing cluster detection\<close>

text \<open>The inner loop over \<^verbatim>\<open>j\<close> for row \<^verbatim>\<open>i\<close>, with its counter.\<close>

definition count_loop :: "row list \<Rightarrow> int \<Rightarrow> nat \<Rightarrow> int" where
  "count_loop df cluster_window i =
     fold (\<lambda>j count.
             if \<bar>Cycle_Date (df ! i) - Cycle_Date (df ! j)\<bar> \<le> cluster_window
             then count + 1 else count)
          [0..<length df] 0"

text \<open>The outer loop over \<^verbatim>\<open>i\<close>, appending one flag per row.\<close>

definition cluster_flags :: "row list \<Rightarrow> int \<Rightarrow> bool list" where
  "cluster_flags df cluster_window =
     fold (\<lambda>i flags. flags @ [count_loop df cluster_window i \<ge> 2]) [0..<length df] []"

definition Cluster :: "row list \<Rightarrow> int \<Rightarrow> string list" where
  "Cluster df cluster_window =
     map (\<lambda>flag. if flag then ''YES'' else '''') (cluster_flags df cluster_window)"

text \<open>
  The two added columns: \<^verbatim>\<open>df["Cluster"]\<close> from the flags, and
  \<^verbatim>\<open>df["Cluster Count"]\<close> from a second pass that sums a one for every row
  \<open>k\<close> within the window of row \<open>i\<close>.
\<close>

definition Cluster_Count :: "row list \<Rightarrow> int \<Rightarrow> int list" where
  "Cluster_Count df cluster_window =
     map (\<lambda>i. sum_list (map (\<lambda>k. 1)
                 (filter (\<lambda>k. \<bar>Cycle_Date (df ! i) - Cycle_Date (df ! k)\<bar> \<le> cluster_window)
                    [0..<length df])))
         [0..<length df]"

subsection \<open>The projection loop in double precision\<close>

text \<open>
  The program computes with IEEE 754 binary64 numbers. \<open>fl64\<close> rounds a real to the
  nearest double, a tie going to the even significand (53 bits, least exponent
  -1022); doubles beyond the largest finite one are not modelled. A quotient or
  product of doubles is \<open>fl64\<close> of the exact result. The library call
  \<^verbatim>\<open>np.sin(np.deg2rad(ang))\<close> is a parameter \<open>sine\<close> of the loops: whatever double
  the library returns for the angle. The swing's price is a double itself.
\<close>

definition fl64 :: "real \<Rightarrow> real" where
  "fl64 x =
     (if x = 0 then 0
      else let e = max \<lfloor>log 2 \<bar>x\<bar>\<rfloor> (- 1022);
               ulp = 2 powr (of_int e - 52)
           in of_int (py_round (x / ulp)) * ulp)"

text \<open>
  The doubles the library returns at the angles of the examples below: 0 at 0,
  0.49999999999999994 at 30, 1 at 90 and 1.2246467991473532e-16 at 180, as exact
  fractions. At any other angle the value stands for the correctly rounded sine of
  the double radians.
\<close>

definition np_sin_deg2rad :: "int \<Rightarrow> real" where
  "np_sin_deg2rad ang =
     (if ang = 0 then 0
      else if ang = 30 then 9007199254740991 / 18014398509481984
      else if ang = 90 then 1
      else if ang = 180 then 4967757600021511 / 40564819207303340847894502572032
      else fl64 (sin (fl64 (of_int ang * fl64 (pi / 180)))))"

fun angle_loop_binary64 ::
  "(int \<Rightarrow> real) \<Rightarrow> swing \<Rightarrow> real \<Rightarrow> real \<Rightarrow> int \<Rightarrow> int list \<Rightarrow> row list \<Rightarrow> error + row list" where
  "angle_loop_binary64 sine s p scaled divisor [] rows = Inr rows"
| "angle_loop_binary64 sine s p scaled divisor (ang # angs) rows =
     (let days = fl64 (scaled * sine ang);
          days_r = py_round days
      in case datetime_add_days (date s) days_r of
           Inl e \<Rightarrow> Inl e
         | Inr cycle_date \<Rightarrow>
             angle_loop_binary64 sine s p scaled divisor angs
               (rows @ [\<lparr>Swing = name s, Price = p,
                          Scaled_Price = fl64 (py_round_ndigits scaled 6),
                          Divisor = divisor, Angle = of_int ang,
                          Days = days_r, Cycle_Date = cycle_date\<rparr>]))"

fun swing_loop_binary64 ::
  "(int \<Rightarrow> real) \<Rightarrow> swing list \<Rightarrow> int list \<Rightarrow> row list \<Rightarrow> error + row list" where
  "swing_loop_binary64 sine [] selected_angles rows = Inr rows"
| "swing_loop_binary64 sine (s # ss) selected_angles rows =
     (case price s of
        None \<Rightarrow> swing_loop_binary64 sine ss selected_angles rows
      | Some p \<Rightarrow>
          (case scale_price p of
             (exact, divisor) \<Rightarrow>
               (case angle_loop_binary64 sine s p (fl64 exact) divisor selected_angles rows of
                  Inl e \<Rightarrow> Inl e
                | Inr rows' \<Rightarrow> swing_loop_binary64 sine ss selected_angles rows')))"

text \<open>
  \<open>scale_price\<close> above divides exactly; the double the program holds after
  \<^verbatim>\<open>price / d\<close> is \<open>fl64\<close> of that quotient, which is what the swing loop passes on.
\<close>

definition compute_cycles_binary64 ::
  "(int \<Rightarrow> real) \<Rightarrow> swing list \<Rightarrow> int list \<Rightarrow> error + row list" where
  "compute_cycles_binary64 sine swings selected_angles =
     swing_loop_binary64 sine swings selected_angles []"

subsection \<open>Notions used to state the properties\<close>

text \<open>
  \<open>calendar_ok d n\<close>: adding \<open>n\<close> days to day \<open>d\<close> stays inside what
  \<^verbatim>\<open>timedelta\<close> and \<^verbatim>\<open>datetime\<close> can hold. \<open>row_of\<close> is the row one pass of
  the angle loop appends; \<open>swing_rows\<close> collects the rows of one swing, and
  \<open>swing_ok\<close> says that none of its projected dates leaves the calendar.
\<close>

definition calendar_ok :: "int \<Rightarrow> int \<Rightarrow> bool" where
  "calendar_ok d n = (\<bar>n\<bar> \<le> 999999999 \<and> 0 < d + n \<and> d + n \<le> MAXORDINAL)"




text \<open>
  The same notions for the double-precision loops: \<open>days_binary64\<close> is the day
  offset the program computes for a price and an angle.
\<close>

definition days_binary64 :: "(int \<Rightarrow> real) \<Rightarrow> real \<Rightarrow> int \<Rightarrow> int" where
  "days_binary64 sine p ang = py_round (fl64 (fl64 (fst (scale_price p)) * sine ang))"

definition row_of_binary64 :: "(int \<Rightarrow> real) \<Rightarrow> swing \<Rightarrow> real \<Rightarrow> int \<Rightarrow> row" where
  "row_of_binary64 sine s p ang =
     \<lparr>Swing = name s, Price = p,
      Scaled_Price = fl64 (py_round_ndigits (fl64 (fst (scale_price p))) 6),
      Divisor = snd (scale_price p), Angle = of_int ang,
      Days = days_binary64 sine p ang,
      Cycle_Date = date s + days_binary64 sine p ang\<rparr>"

definition swing_rows_binary64 :: "(int \<Rightarrow> real) \<Rightarrow> int list \<Rightarrow> swing \<Rightarrow> row list" where
  "swing_rows_binary64 sine angs s =
     (case price s of
        None \<Rightarrow> []
      | Some p \<Rightarrow> map (row_of_binary64 sine s p) angs)"

definition swing_ok_binary64 :: "(int \<Rightarrow> real) \<Rightarrow> int list \<Rightarrow> swing \<Rightarrow> bool" where
  "swing_ok_binary64 sine angs s =
     (case price s of
        None \<Rightarrow> True
      | Some p \<Rightarrow> \<forall>a\<in>set angs. calendar_ok (date s) (days_binary64 sine p a))"

section \<open>Properties\<close>

subsection \<open>Price scaling\<close>

text \<open>
  C1: the divisor is chosen by a first-match descending ladder (3000 from 100000,
  500 from 25000, 100 from 10000, 10 from 1000, 2 from 500, otherwise 1, which
  covers zero and negative prices), the scaled price is the price divided by that
  divisor, and the divisor is positive, so the division is defined for every price.
\<close>

theorem scale_price_ladder:
  "(100000 \<le> p \<longrightarrow> scale_price p = (p / 3000, 3000)) \<and>
   (25000 \<le> p \<and> p < 100000 \<longrightarrow> scale_price p = (p / 500, 500)) \<and>
   (10000 \<le> p \<and> p < 25000 \<longrightarrow> scale_price p = (p / 100, 100)) \<and>
   (1000 \<le> p \<and> p < 10000 \<longrightarrow> scale_price p = (p / 10, 10)) \<and>
   (500 \<le> p \<and> p < 1000 \<longrightarrow> scale_price p = (p / 2, 2)) \<and>
   (p < 500 \<longrightarrow> scale_price p = (p, 1)) \<and>
   0 < snd (scale_price p) \<and>
   fst (scale_price p) = p / of_int (snd (scale_price p))"
  by (simp add: scale_price_def Let_def)

theorem scale_price_ladder_witness:
  "scale_price 150000 = (50, 3000) \<and> scale_price 100000 = (100000 / 3000, 3000) \<and>
   scale_price 25000 = (50, 500) \<and> scale_price 10000 = (100, 100) \<and>
   scale_price 1000 = (100, 10) \<and> scale_price 500 = (250, 2) \<and>
   scale_price 210 = (210, 1) \<and> scale_price 0 = (0, 1) \<and> scale_price (- 7) = (- 7, 1)"
  using scale_price_ladder [of 150000] scale_price_ladder [of 100000]
    scale_price_ladder [of 25000] scale_price_ladder [of 10000]
    scale_price_ladder [of 1000] scale_price_ladder [of 500]
    scale_price_ladder [of 210] scale_price_ladder [of 0] scale_price_ladder [of "- 7"]
  by simp

text \<open>
  C7: multiplying the scaled price by the divisor gives the price back, and the
  divisor is one of 1, 2, 10, 100, 500, 3000.
\<close>

theorem scale_price_inverse:
  "fst (scale_price p) * of_int (snd (scale_price p)) = p \<and>
   snd (scale_price p) \<in> {1, 2, 10, 100, 500, 3000}"
  by (simp add: scale_price_def Let_def)

subsection \<open>Rounding and the sine at the angles used below\<close>

lemma py_round_nearest: "\<bar>of_int (py_round x) - x\<bar> \<le> 1 / 2"
  unfolding py_round_def Let_def by (auto simp: abs_le_iff; linarith)

lemma py_round_of_int [simp]: "py_round (of_int n) = n"
  by (simp add: py_round_def Let_def)

lemma py_round_zero [simp]: "py_round 0 = 0"
  using py_round_of_int [of 0] by simp

lemma py_round_numeral [simp]: "py_round (numeral k) = numeral k"
  using py_round_of_int [of "numeral k"] by simp

lemma py_round_neg_numeral [simp]: "py_round (- numeral k) = - numeral k"
  using py_round_of_int [of "- numeral k"] by simp

lemma sin_deg2rad_0 [simp]: "sin (deg2rad 0) = 0"
  by (simp add: deg2rad_def)

lemma sin_deg2rad_180 [simp]: "sin (deg2rad 180) = 0"
  by (simp add: deg2rad_def)

lemma sin_deg2rad_90 [simp]: "sin (deg2rad 90) = 1"
proof -
  have "deg2rad 90 = pi / 2" by (simp add: deg2rad_def)
  then show ?thesis by (simp only: sin_pi_half)
qed

lemma sin_deg2rad_30 [simp]: "sin (deg2rad 30) = 1 / 2"
proof -
  have "deg2rad 30 = pi / 6" by (simp add: deg2rad_def)
  then show ?thesis by (simp only: sin_30)
qed

subsection \<open>The two loops in closed form\<close>

lemma datetime_add_days_cases:
  "datetime_add_days d n = (if calendar_ok d n then Inr (d + n) else Inl OverflowError)"
  by (auto simp: datetime_add_days_def calendar_ok_def)



subsection \<open>The projection loop in exact arithmetic\<close>



text \<open>
  C9, as amended: the swing of price 210 on 2025-04-07 at 90 degrees falls below
  500, so its divisor is 1: the scaled price is 210, the day offset is 210 and the
  cycle date is 2025-11-03.
\<close>

theorem example_swing_210:
  "scale_price 210 = (210, 1) \<and>
   compute_cycles [\<lparr>name = ''Swing 1'', price = Some 210, date = ymd2ord 2025 4 7\<rparr>] [90] =
     Inr [\<lparr>Swing = ''Swing 1'', Price = 210, Scaled_Price = 210, Divisor = 1,
           Angle = 90, Days = 210, Cycle_Date = ymd2ord 2025 11 3\<rparr>] \<and>
   ord2ymd (ymd2ord 2025 4 7 + 210) = (2025, 11, 3)"
  by (simp add: compute_cycles_def scale_price_def datetime_add_days_def MAXORDINAL_def
      py_round_ndigits_def ord2ymd_def DAYS_IN_MONTH_def
      ymd2ord_def days_before_year_def days_before_month_def DAYS_BEFORE_MONTH_def
      is_leap_def Let_def)

theorem example_swing_210_witness:
  "fst (scale_price 210) = 210"
  using example_swing_210 by simp

text \<open>
  The values of the claim as stated (scaled price 210/2, offset 105, cycle date
  2025-07-21) are not what the loop computes.
\<close>

theorem example_swing_210_not_105:
  "\<not> (\<exists>r. compute_cycles
         [\<lparr>name = ''Swing 1'', price = Some 210, date = ymd2ord 2025 4 7\<rparr>] [90] = Inr [r] \<and>
        Scaled_Price r = 210 / 2 \<and> Days r = 105 \<and> Cycle_Date r = ymd2ord 2025 7 21)"
  by (simp add: compute_cycles_def scale_price_def datetime_add_days_def MAXORDINAL_def
      py_round_ndigits_def
      ymd2ord_def days_before_year_def days_before_month_def DAYS_BEFORE_MONTH_def
      is_leap_def Let_def)

subsection \<open>Rounding to a double\<close>

lemma fl64_zero [simp]: "fl64 0 = 0"
  by (simp add: fl64_def)

lemma fl64_eval:
  assumes "2 powr of_int k \<le> \<bar>x\<bar>" and "\<bar>x\<bar> < 2 powr (of_int k + 1)" and "- 1022 \<le> k"
  shows "fl64 x = of_int (py_round (x / 2 powr (of_int k - 52))) * 2 powr (of_int k - 52)"
proof -
  from assms(1) have nz: "x \<noteq> 0"
    by auto
  then have "\<lfloor>log 2 \<bar>x\<bar>\<rfloor> = k"
    using assms(1,2) by (simp add: floor_log_eq_powr_iff)
  with nz assms(3) show ?thesis
    by (simp add: fl64_def Let_def max_def)
qed

lemma fl64_error: "\<bar>fl64 x - x\<bar> \<le> \<bar>x\<bar> / 2 ^ 53 + 2 powr (- 1075)"
proof (cases "x = 0")
  case True
  then show ?thesis by simp
next
  case False
  define e where "e = max \<lfloor>log 2 \<bar>x\<bar>\<rfloor> (- 1022)"
  define u :: real where "u = 2 powr (of_int e - 52)"
  have u: "0 < u"
    by (simp add: u_def)
  have f: "fl64 x = of_int (py_round (x / u)) * u"
    using False by (simp add: fl64_def Let_def e_def u_def)
  have "\<bar>of_int (py_round (x / u)) - x / u\<bar> \<le> 1 / 2"
    by (rule py_round_nearest)
  then have "\<bar>of_int (py_round (x / u)) - x / u\<bar> * u \<le> 1 / 2 * u"
    using u by (intro mult_right_mono) simp_all
  moreover have "\<bar>of_int (py_round (x / u)) - x / u\<bar> * u = \<bar>fl64 x - x\<bar>"
  proof -
    have "(of_int (py_round (x / u)) - x / u) * u = fl64 x - x"
      using u by (simp add: f left_diff_distrib)
    then have "\<bar>fl64 x - x\<bar> = \<bar>of_int (py_round (x / u)) - x / u\<bar> * \<bar>u\<bar>"
      by (simp only: abs_mult [symmetric])
    with u show ?thesis
      by simp
  qed
  ultimately have h: "\<bar>fl64 x - x\<bar> \<le> u / 2"
    by simp
  have "u / 2 \<le> \<bar>x\<bar> / 2 ^ 53 + 2 powr (- 1075)"
  proof (cases "\<lfloor>log 2 \<bar>x\<bar>\<rfloor> \<ge> - 1022")
    case True
    then have "e = \<lfloor>log 2 \<bar>x\<bar>\<rfloor>"
      by (simp add: e_def)
    then have "of_int e \<le> log 2 \<bar>x\<bar>"
      by simp
    then have "2 powr of_int e \<le> \<bar>x\<bar>"
      using False by (simp add: powr_le_iff)
    moreover have "u = 2 powr of_int e / 2 ^ 52"
      by (simp add: u_def powr_diff)
    ultimately have "u / 2 \<le> \<bar>x\<bar> / 2 ^ 53"
      by simp
    moreover have "0 \<le> 2 powr (- 1075 :: real)"
      by simp
    ultimately show ?thesis
      by linarith
  next
    case False
    then have "e = - 1022"
      by (simp add: e_def)
    then have "u = 2 powr (- 1074)"
      by (simp add: u_def)
    then have "u / 2 = 2 powr (- 1075)"
      by (simp add: powr_diff [of 2 "- 1074" 1, simplified])
    then show ?thesis
      by simp
  qed
  with h show ?thesis
    by linarith
qed



lemma py_round_tie: "py_round (of_int n + 1 / 2) = (if even n then n else n + 1)"
proof -
  have "\<lfloor>of_int n + (1 / 2 :: real)\<rfloor> = n"
    by linarith
  then show ?thesis
    by (simp add: py_round_def Let_def)
qed



lemma fl64_of_int:
  assumes "\<bar>n\<bar> < 2 ^ 53"
  shows "fl64 (of_int n) = of_int n"
proof (cases "n = 0")
  case True
  then show ?thesis by simp
next
  case False
  define e where "e = \<lfloor>log 2 \<bar>real_of_int n\<bar>\<rfloor>"
  from False have "1 \<le> \<bar>n\<bar>"
    by simp
  then have "real_of_int 1 \<le> real_of_int \<bar>n\<bar>"
    by (simp only: of_int_le_iff)
  then have one: "1 \<le> \<bar>real_of_int n\<bar>"
    by simp
  then have "0 \<le> log 2 \<bar>real_of_int n\<bar>"
    by simp
  then have e0: "0 \<le> e"
    by (simp add: e_def)
  from assms have "real_of_int \<bar>n\<bar> < real_of_int (2 ^ 53)"
    by (simp only: of_int_less_iff)
  then have "\<bar>real_of_int n\<bar> < 2 ^ 53"
    by simp
  then have "log 2 \<bar>real_of_int n\<bar> < 53"
    using one by (simp add: log_less_iff)
  then have e52: "e \<le> 52"
    unfolding e_def by linarith
  define m where "m = nat (52 - e)"
  have "real_of_int e - 52 = - real m"
    using e52 by (simp add: m_def)
  then have u: "2 powr (real_of_int e - 52) = 1 / 2 ^ m"
    by (simp add: powr_minus powr_realpow divide_inverse)
  have "real_of_int n / (1 / 2 ^ m) = of_int (n * 2 ^ m)"
    by simp
  then have "py_round (real_of_int n / (1 / 2 ^ m)) = n * 2 ^ m"
    by (simp only: py_round_of_int)
  with False e0 show ?thesis
    by (simp add: fl64_def Let_def e_def [symmetric] max_def u)
qed

lemma fl64_numeral [simp]: "numeral k < (2 ^ 53 :: int) \<Longrightarrow> fl64 (numeral k) = numeral k"
  using fl64_of_int [of "numeral k"] by simp

lemma fl64_neg_numeral [simp]:
  "numeral k < (2 ^ 53 :: int) \<Longrightarrow> fl64 (- numeral k) = - numeral k"
  using fl64_of_int [of "- numeral k"] by simp

subsection \<open>The double-precision loops in closed form\<close>

lemma angle_loop_binary64_eq:
  "angle_loop_binary64 sine s p scaled divisor angs rows =
     (if \<forall>a\<in>set angs. calendar_ok (date s) (py_round (fl64 (scaled * sine a)))
      then Inr (rows @
        map (\<lambda>a. \<lparr>Swing = name s, Price = p,
                   Scaled_Price = fl64 (py_round_ndigits scaled 6),
                   Divisor = divisor, Angle = of_int a,
                   Days = py_round (fl64 (scaled * sine a)),
                   Cycle_Date = date s + py_round (fl64 (scaled * sine a))\<rparr>) angs)
      else Inl OverflowError)"
proof (induction angs arbitrary: rows)
  case Nil
  show ?case by simp
next
  case (Cons a angs)
  show ?case
    by (simp add: Cons.IH datetime_add_days_cases Let_def)
qed

lemma swing_loop_binary64_eq:
  "swing_loop_binary64 sine ss angs rows =
     (if \<forall>s\<in>set ss. swing_ok_binary64 sine angs s
      then Inr (rows @ concat (map (swing_rows_binary64 sine angs) ss))
      else Inl OverflowError)"
proof (induction ss arbitrary: rows)
  case Nil
  show ?case by simp
next
  case (Cons s ss)
  show ?case
  proof (cases "price s")
    case None
    then have "swing_ok_binary64 sine angs s" and "swing_rows_binary64 sine angs s = []"
      by (simp_all add: swing_ok_binary64_def swing_rows_binary64_def)
    with None show ?thesis by (simp add: Cons.IH)
  next
    case (Some p)
    then have ok: "swing_ok_binary64 sine angs s \<longleftrightarrow>
        (\<forall>a\<in>set angs. calendar_ok (date s)
           (py_round (fl64 (fl64 (fst (scale_price p)) * sine a))))"
      and rs: "swing_rows_binary64 sine angs s = map (row_of_binary64 sine s p) angs"
      by (simp_all add: swing_ok_binary64_def swing_rows_binary64_def days_binary64_def)
    have r: "row_of_binary64 sine s p =
        (\<lambda>a. \<lparr>Swing = name s, Price = p,
               Scaled_Price = fl64 (py_round_ndigits (fl64 (fst (scale_price p))) 6),
               Divisor = snd (scale_price p), Angle = of_int a,
               Days = py_round (fl64 (fl64 (fst (scale_price p)) * sine a)),
               Cycle_Date = date s + py_round (fl64 (fl64 (fst (scale_price p)) * sine a))\<rparr>)"
      by (rule ext) (simp add: row_of_binary64_def days_binary64_def)
    show ?thesis
      by (simp add: Some Cons.IH ok rs r angle_loop_binary64_eq split: prod.split)
  qed
qed

lemma all_swing_ok_binary64:
  "(\<forall>s\<in>set ss. swing_ok_binary64 sine angs s) \<longleftrightarrow>
   (\<forall>s\<in>set ss. \<forall>p. price s = Some p \<longrightarrow>
      (\<forall>a\<in>set angs. calendar_ok (date s)
         (py_round (fl64 (fl64 (fst (scale_price p)) * sine a)))))"
  by (auto simp: swing_ok_binary64_def days_binary64_def split: option.splits)

lemma swing_rows_binary64_explicit:
  "swing_rows_binary64 sine angs =
     (\<lambda>s. case price s of
        None \<Rightarrow> []
      | Some p \<Rightarrow>
          map (\<lambda>a. \<lparr>Swing = name s, Price = p,
                     Scaled_Price = fl64 (py_round_ndigits (fl64 (fst (scale_price p))) 6),
                     Divisor = snd (scale_price p), Angle = of_int a,
                     Days = py_round (fl64 (fl64 (fst (scale_price p)) * sine a)),
                     Cycle_Date = date s
                       + py_round (fl64 (fl64 (fst (scale_price p)) * sine a))\<rparr>)
              angs)"
  by (rule ext)
    (simp add: swing_rows_binary64_def row_of_binary64_def days_binary64_def
      split: option.splits)

lemma length_swing_rows_binary64:
  "length (concat (map (swing_rows_binary64 sine angs) ss)) =
     length (filter (\<lambda>s. price s \<noteq> None) ss) * length angs"
  by (induction ss) (auto simp: swing_rows_binary64_def split: option.splits)

subsection \<open>The projection loop as the program computes it\<close>

lemma ymd2ord_2025_04_07: "ymd2ord 2025 4 7 = 739348"
  by (simp add: ymd2ord_def days_before_year_def days_before_month_def
      DAYS_BEFORE_MONTH_def is_leap_def Let_def)

lemma ymd2ord_2025_05_09: "ymd2ord 2025 5 9 = 739380"
  by (simp add: ymd2ord_def days_before_year_def days_before_month_def
      DAYS_BEFORE_MONTH_def is_leap_def Let_def)

lemma days_210_at_30: "py_round (fl64 (210 * np_sin_deg2rad 30)) = 105"
proof -
  have a: "210 * np_sin_deg2rad 30 = 945755921747804055 / 9007199254740992"
    by (simp add: np_sin_deg2rad_def)
  have b: "fl64 (945755921747804055 / 9007199254740992) = 7388718138654719 / 70368744177664"
    by (subst fl64_eval [of 6]) (simp_all add: powr_neg_numeral py_round_def)
  have c: "py_round (7388718138654719 / 70368744177664) = 105"
    by (simp add: py_round_def)
  show ?thesis
    by (simp only: a b c)
qed

lemma days_235_at_30: "py_round (fl64 (235 * np_sin_deg2rad 30)) = 117"
proof -
  have a: "235 * np_sin_deg2rad 30 = 2116691824864132885 / 18014398509481984"
    by (simp add: np_sin_deg2rad_def)
  have b: "fl64 (2116691824864132885 / 18014398509481984) = 8268327440875519 / 70368744177664"
    by (subst fl64_eval [of 6]) (simp_all add: powr_neg_numeral py_round_def)
  have c: "py_round (8268327440875519 / 70368744177664) = 117"
    by (simp add: py_round_def)
  show ?thesis
    by (simp only: a b c)
qed

lemma days_neg_1000_at_30: "py_round (fl64 (- (1000 * np_sin_deg2rad 30))) = - 500"
proof -
  have a: "- (1000 * np_sin_deg2rad 30) = - (1125899906842623875 / 2251799813685248)"
    by (simp add: np_sin_deg2rad_def)
  have b: "fl64 (- (1125899906842623875 / 2251799813685248)) =
      - (8796093022207999 / 17592186044416)"
    by (subst fl64_eval [of 8]) (simp_all add: powr_neg_numeral py_round_def)
  have c: "py_round (- (8796093022207999 / 17592186044416)) = - 500"
    by (simp add: py_round_def)
  show ?thesis
    by (simp only: a b c)
qed

lemma days_neg_at_90: "numeral k < (2 ^ 53 :: int) \<Longrightarrow>
    py_round (fl64 (- (numeral k * np_sin_deg2rad 90))) = - numeral k"
  by (simp add: np_sin_deg2rad_def)

lemma days_at_90: "numeral k < (2 ^ 53 :: int) \<Longrightarrow>
    py_round (fl64 (numeral k * np_sin_deg2rad 90)) = numeral k"
  by (simp add: np_sin_deg2rad_def)

text \<open>
  C2, as amended: the loop computes in binary64. It returns exactly one row for
  every swing with a price and every selected angle, in swing-major, angle-minor
  order, if every projected date stays inside the calendar (day offset at most
  999999999 in magnitude, anchor plus offset between 0001-01-01 and 9999-12-31),
  and raises the overflow error otherwise. The row holds the divisor of
  \<open>scale_price\<close>; the scaled price is the double quotient rounded to six decimals;
  the day offset is the double product of the double quotient and the library's
  double sine of the angle, rounded to the nearest integer with a tie going to the
  even one; the cycle date is anchor plus offset. A swing is skipped only when its
  price is \<open>None\<close>. Each rounding to a double is off by at most one part in
  \<open>2 ^ 53\<close> (or \<open>2 powr - 1075\<close>).
\<close>

theorem compute_cycles_binary64_rows:
  "compute_cycles_binary64 sine swings angles =
     (if \<forall>s\<in>set swings. \<forall>p. price s = Some p \<longrightarrow>
           (\<forall>a\<in>set angles. calendar_ok (date s)
              (py_round (fl64 (fl64 (fst (scale_price p)) * sine a))))
      then Inr (concat (map (\<lambda>s. case price s of
                  None \<Rightarrow> []
                | Some p \<Rightarrow>
                    map (\<lambda>a. \<lparr>Swing = name s, Price = p,
                               Scaled_Price =
                                 fl64 (py_round_ndigits (fl64 (fst (scale_price p))) 6),
                               Divisor = snd (scale_price p), Angle = of_int a,
                               Days = py_round (fl64 (fl64 (fst (scale_price p)) * sine a)),
                               Cycle_Date = date s
                                 + py_round (fl64 (fl64 (fst (scale_price p)) * sine a))\<rparr>)
                        angles) swings))
      else Inl OverflowError) \<and>
   (\<forall>x. \<bar>of_int (py_round x) - x\<bar> \<le> 1 / 2) \<and>
   (\<forall>n. py_round (of_int n + 1 / 2) = (if even n then n else n + 1)) \<and>
   (\<forall>x. \<bar>fl64 x - x\<bar> \<le> \<bar>x\<bar> / 2 ^ 53 + 2 powr (- 1075))"
proof -
  have "compute_cycles_binary64 sine swings angles =
      (if \<forall>s\<in>set swings. swing_ok_binary64 sine angles s
       then Inr (concat (map (swing_rows_binary64 sine angles) swings))
       else Inl OverflowError)"
    by (simp add: compute_cycles_binary64_def swing_loop_binary64_eq)
  then show ?thesis
    by (simp only: all_swing_ok_binary64 swing_rows_binary64_explicit
        py_round_nearest py_round_tie fl64_error simp_thms)
qed

theorem compute_cycles_binary64_rows_witness:
  "compute_cycles_binary64 np_sin_deg2rad
     [\<lparr>name = ''Swing 1'', price = Some 210, date = 739348\<rparr>,
      \<lparr>name = ''Swing 2'', price = Some 235, date = 739380\<rparr>,
      \<lparr>name = ''Swing 3'', price = None, date = 739417\<rparr>,
      \<lparr>name = ''Swing 4'', price = Some (- 1000), date = 739417\<rparr>,
      \<lparr>name = ''Swing 5'', price = Some 0, date = 739417\<rparr>]
     [30, 90] =
   Inr [\<lparr>Swing = ''Swing 1'', Price = 210, Scaled_Price = 210, Divisor = 1,
         Angle = 30, Days = 105, Cycle_Date = 739453\<rparr>,
        \<lparr>Swing = ''Swing 1'', Price = 210, Scaled_Price = 210, Divisor = 1,
         Angle = 90, Days = 210, Cycle_Date = 739558\<rparr>,
        \<lparr>Swing = ''Swing 2'', Price = 235, Scaled_Price = 235, Divisor = 1,
         Angle = 30, Days = 117, Cycle_Date = 739497\<rparr>,
        \<lparr>Swing = ''Swing 2'', Price = 235, Scaled_Price = 235, Divisor = 1,
         Angle = 90, Days = 235, Cycle_Date = 739615\<rparr>,
        \<lparr>Swing = ''Swing 4'', Price = - 1000, Scaled_Price = - 1000, Divisor = 1,
         Angle = 30, Days = - 500, Cycle_Date = 738917\<rparr>,
        \<lparr>Swing = ''Swing 4'', Price = - 1000, Scaled_Price = - 1000, Divisor = 1,
         Angle = 90, Days = - 1000, Cycle_Date = 738417\<rparr>,
        \<lparr>Swing = ''Swing 5'', Price = 0, Scaled_Price = 0, Divisor = 1,
         Angle = 30, Days = 0, Cycle_Date = 739417\<rparr>,
        \<lparr>Swing = ''Swing 5'', Price = 0, Scaled_Price = 0, Divisor = 1,
         Angle = 90, Days = 0, Cycle_Date = 739417\<rparr>]"
proof -
  have s: "scale_price 210 = (210, 1)" "scale_price 235 = (235, 1)"
    "scale_price (- 1000) = (- 1000, 1)" "scale_price 0 = (0, 1)"
    by (simp_all add: scale_price_def)
  show ?thesis
    using compute_cycles_binary64_rows
      [of np_sin_deg2rad
          "[\<lparr>name = ''Swing 1'', price = Some 210, date = 739348\<rparr>,
            \<lparr>name = ''Swing 2'', price = Some 235, date = 739380\<rparr>,
            \<lparr>name = ''Swing 3'', price = None, date = 739417\<rparr>,
            \<lparr>name = ''Swing 4'', price = Some (- 1000), date = 739417\<rparr>,
            \<lparr>name = ''Swing 5'', price = Some 0, date = 739417\<rparr>]" "[30, 90]"]
    by (simp add: s days_210_at_30 days_235_at_30 days_neg_1000_at_30 days_at_90
        days_neg_at_90 calendar_ok_def MAXORDINAL_def py_round_ndigits_def)
qed

text \<open>
  The claim as stated fails twice. For the swing of price 235 on 2025-05-09 at 30
  degrees the double sine is just below one half, the product is just below 117.5
  and the offset is 117, although the exact \<open>235 * sin (30 * pi / 180)\<close> is 117.5,
  which rounds to 118. And a swing of price 30000000000 on 2025-04-07 at 90 degrees
  has offset 10000000 days: the date addition raises and no row is emitted.
\<close>

theorem compute_cycles_binary64_not_exact:
  "compute_cycles_binary64 np_sin_deg2rad
     [\<lparr>name = ''Swing 2'', price = Some 235, date = ymd2ord 2025 5 9\<rparr>] [30] =
   Inr [\<lparr>Swing = ''Swing 2'', Price = 235, Scaled_Price = 235, Divisor = 1,
         Angle = 30, Days = 117, Cycle_Date = ymd2ord 2025 9 3\<rparr>] \<and>
   235 * sin (30 * pi / 180) = 117 + 1 / 2 \<and>
   py_round (117 + 1 / 2) = 118 \<and>
   compute_cycles_binary64 np_sin_deg2rad
     [\<lparr>name = ''Swing 1'', price = Some 30000000000, date = ymd2ord 2025 4 7\<rparr>] [90] =
   Inl OverflowError"
proof (intro conjI)
  have s: "scale_price 235 = (235, 1)"
    by (simp add: scale_price_def)
  have d: "ymd2ord 2025 9 3 = 739497"
    by (simp add: ymd2ord_def days_before_year_def days_before_month_def
        DAYS_BEFORE_MONTH_def is_leap_def Let_def)
  show "compute_cycles_binary64 np_sin_deg2rad
     [\<lparr>name = ''Swing 2'', price = Some 235, date = ymd2ord 2025 5 9\<rparr>] [30] =
   Inr [\<lparr>Swing = ''Swing 2'', Price = 235, Scaled_Price = 235, Divisor = 1,
         Angle = 30, Days = 117, Cycle_Date = ymd2ord 2025 9 3\<rparr>]"
    by (simp add: compute_cycles_binary64_def s days_235_at_30 datetime_add_days_def
        MAXORDINAL_def py_round_ndigits_def ymd2ord_2025_05_09 d Let_def)
  have "sin (30 * pi / 180) = 1 / 2"
    by (simp add: sin_30)
  then show "235 * sin (30 * pi / 180) = 117 + 1 / 2"
    by simp
  show "py_round (117 + 1 / 2) = 118"
    using py_round_tie [of 117] by simp
  have s': "scale_price 30000000000 = (10000000, 3000)"
    by (simp add: scale_price_def)
  show "compute_cycles_binary64 np_sin_deg2rad
     [\<lparr>name = ''Swing 1'', price = Some 30000000000, date = ymd2ord 2025 4 7\<rparr>] [90] =
   Inl OverflowError"
    by (simp add: compute_cycles_binary64_def s' days_at_90 datetime_add_days_def
        MAXORDINAL_def ymd2ord_2025_04_07 Let_def)
qed

text \<open>
  C5, as amended: if every projected date the program computes stays inside the
  calendar, the loop returns and the number of rows is the number of swings with a
  price times the number of selected angles; otherwise the date addition raises
  the overflow error and there are no rows.
\<close>

theorem compute_cycles_binary64_length:
  "(if \<forall>s\<in>set swings. \<forall>p. price s = Some p \<longrightarrow>
         (\<forall>a\<in>set angles. calendar_ok (date s)
            (py_round (fl64 (fl64 (fst (scale_price p)) * sine a))))
    then \<exists>rows. compute_cycles_binary64 sine swings angles = Inr rows \<and>
           length rows = length (filter (\<lambda>s. price s \<noteq> None) swings) * length angles
    else compute_cycles_binary64 sine swings angles = Inl OverflowError)"
proof -
  have "compute_cycles_binary64 sine swings angles =
      (if \<forall>s\<in>set swings. swing_ok_binary64 sine angles s
       then Inr (concat (map (swing_rows_binary64 sine angles) swings))
       else Inl OverflowError)"
    by (simp add: compute_cycles_binary64_def swing_loop_binary64_eq)
  then show ?thesis
    by (simp add: all_swing_ok_binary64 length_swing_rows_binary64)
qed

theorem compute_cycles_binary64_length_witness:
  "(\<exists>rows. compute_cycles_binary64 np_sin_deg2rad
       [\<lparr>name = ''Swing 1'', price = Some 210, date = 739348\<rparr>,
        \<lparr>name = ''Swing 2'', price = None, date = 739380\<rparr>,
        \<lparr>name = ''Swing 3'', price = Some 235, date = 739417\<rparr>]
       [30, 90] = Inr rows \<and> length rows = 4) \<and>
   compute_cycles_binary64 np_sin_deg2rad
     [\<lparr>name = ''Swing 1'', price = Some 210, date = 3652000\<rparr>] [90] = Inl OverflowError"
proof -
  have s: "scale_price 210 = (210, 1)" "scale_price 235 = (235, 1)"
    by (simp_all add: scale_price_def)
  have "\<exists>rows. compute_cycles_binary64 np_sin_deg2rad
       [\<lparr>name = ''Swing 1'', price = Some 210, date = 739348\<rparr>,
        \<lparr>name = ''Swing 2'', price = None, date = 739380\<rparr>,
        \<lparr>name = ''Swing 3'', price = Some 235, date = 739417\<rparr>]
       [30, 90] = Inr rows \<and> length rows = 4"
    using compute_cycles_binary64_length
      [of "[\<lparr>name = ''Swing 1'', price = Some 210, date = 739348\<rparr>,
            \<lparr>name = ''Swing 2'', price = None, date = 739380\<rparr>,
            \<lparr>name = ''Swing 3'', price = Some 235, date = 739417\<rparr>]" "[30, 90]"
          np_sin_deg2rad]
    by (simp add: s days_210_at_30 days_235_at_30 days_at_90 calendar_ok_def MAXORDINAL_def
        eval_nat_numeral)
  moreover have "compute_cycles_binary64 np_sin_deg2rad
     [\<lparr>name = ''Swing 1'', price = Some 210, date = 3652000\<rparr>] [90] = Inl OverflowError"
    using compute_cycles_binary64_length
      [of "[\<lparr>name = ''Swing 1'', price = Some 210, date = 3652000\<rparr>]" "[90]" np_sin_deg2rad]
    by (simp add: s days_at_90 calendar_ok_def MAXORDINAL_def)
  ultimately show ?thesis
    by (rule conjI)
qed

text \<open>
  The count fails as the claim states it: with a second swing of price
  30000000000 the run ends in an overflow and yields no row list at all, not two
  rows.
\<close>

theorem compute_cycles_binary64_length_overflow:
  "\<not> (\<exists>rows. compute_cycles_binary64 np_sin_deg2rad
         [\<lparr>name = ''Swing 1'', price = Some 210, date = ymd2ord 2025 4 7\<rparr>,
          \<lparr>name = ''Swing 2'', price = Some 30000000000, date = ymd2ord 2025 5 9\<rparr>]
         [90] = Inr rows \<and>
       length rows =
         length (filter (\<lambda>s. price s \<noteq> None)
           [\<lparr>name = ''Swing 1'', price = Some 210, date = ymd2ord 2025 4 7\<rparr>,
            \<lparr>name = ''Swing 2'', price = Some 30000000000, date = ymd2ord 2025 5 9\<rparr>])
         * length [90 :: int])"
proof -
  have s: "scale_price 210 = (210, 1)" "scale_price 30000000000 = (10000000, 3000)"
    by (simp_all add: scale_price_def)
  show ?thesis
    by (simp add: compute_cycles_binary64_def s days_at_90 datetime_add_days_def
        MAXORDINAL_def ymd2ord_2025_04_07 ymd2ord_2025_05_09 Let_def)
qed






text \<open>
  The double-precision loops agree with the exact ones on the inputs of the two
  properties above: a zero price, and the swing of price 210 at 90 degrees. The
  third example shows the six-decimal rounding of a quotient that is not a double:
  for price 1000.015625 the double quotient lies just above 100.0015625 and the
  scaled price is the double nearest to 100.001563.
\<close>

lemma zero_price_swing_binary64:
  assumes "price s = Some 0" and "0 < date s" and "date s \<le> MAXORDINAL"
  shows "swing_loop_binary64 sine (s # ss) angles rows =
    swing_loop_binary64 sine ss angles
      (rows @ map (\<lambda>a. \<lparr>Swing = name s, Price = 0, Scaled_Price = 0, Divisor = 1,
                        Angle = of_int a, Days = 0, Cycle_Date = date s\<rparr>) angles)"
  using assms
  by (simp add: scale_price_def angle_loop_binary64_eq calendar_ok_def py_round_ndigits_def)

lemma example_swing_210_binary64:
  "compute_cycles_binary64 np_sin_deg2rad
     [\<lparr>name = ''Swing 1'', price = Some 210, date = ymd2ord 2025 4 7\<rparr>] [90] =
   Inr [\<lparr>Swing = ''Swing 1'', Price = 210, Scaled_Price = 210, Divisor = 1,
         Angle = 90, Days = 210, Cycle_Date = ymd2ord 2025 11 3\<rparr>]"
proof -
  have s: "scale_price 210 = (210, 1)"
    by (simp add: scale_price_def)
  have d: "ymd2ord 2025 11 3 = 739558"
    by (simp add: ymd2ord_def days_before_year_def days_before_month_def
        DAYS_BEFORE_MONTH_def is_leap_def Let_def)
  show ?thesis
    by (simp add: compute_cycles_binary64_def s days_at_90 datetime_add_days_def
        MAXORDINAL_def py_round_ndigits_def ymd2ord_2025_04_07 d Let_def)
qed

lemma scaled_price_six_decimals:
  "fl64 (fst (scale_price (64001 / 64))) = 3518492184464589 / 35184372088832 \<and>
   fl64 (py_round_ndigits (fl64 (fst (scale_price (64001 / 64)))) 6) =
     fl64 (100001563 / 1000000) \<and>
   py_round_ndigits (fst (scale_price (64001 / 64))) 6 = 100001562 / 1000000"
proof -
  have s: "fst (scale_price (64001 / 64)) = 64001 / 640"
    by (simp add: scale_price_def)
  have q: "fl64 (64001 / 640) = 3518492184464589 / 35184372088832"
    by (subst fl64_eval [of 6]) (simp_all add: powr_neg_numeral py_round_def)
  have r: "py_round_ndigits (3518492184464589 / 35184372088832) 6 = 100001563 / 1000000"
    by (simp add: py_round_ndigits_def py_round_def)
  have e: "py_round_ndigits (64001 / 640) 6 = 100001562 / 1000000"
    by (simp add: py_round_ndigits_def py_round_def)
  show ?thesis
    by (simp only: s q r e simp_thms)
qed

subsection \<open>The sorted table\<close>





subsection \<open>Cluster detection\<close>

lemma fold_count:
  "fold (\<lambda>j count. if P j then count + 1 else count) xs (c :: int) =
     c + int (length (filter P xs))"
  by (induction xs arbitrary: c) simp_all

lemma fold_append_map: "fold (\<lambda>i flags. flags @ [f i]) xs acc = acc @ map f xs"
  by (induction xs arbitrary: acc) simp_all

lemma length_filter_upt: "length (filter P [0..<n]) = card {j. j < n \<and> P j}"
proof -
  have "card (set (filter P [0..<n])) = length (filter P [0..<n])"
    by (rule distinct_card) simp
  moreover have "set (filter P [0..<n]) = {j. j < n \<and> P j}"
    by auto
  ultimately show ?thesis by simp
qed

lemma count_loop_card:
  "count_loop df w i =
     int (card {j. j < length df \<and> \<bar>Cycle_Date (df ! i) - Cycle_Date (df ! j)\<bar> \<le> w})"
  by (simp add: count_loop_def fold_count length_filter_upt)

lemma cluster_flags_map:
  "cluster_flags df w = map (\<lambda>i. count_loop df w i \<ge> 2) [0..<length df]"
  by (simp add: cluster_flags_def fold_append_map)

lemma Cluster_Count_nth:
  "i < length df \<Longrightarrow> Cluster_Count df w ! i =
     int (card {j. j < length df \<and> \<bar>Cycle_Date (df ! i) - Cycle_Date (df ! j)\<bar> \<le> w})"
  by (simp add: Cluster_Count_def sum_list_triv length_filter_upt)

text \<open>
  C3: the cluster count of row \<open>i\<close> is the number of rows \<open>j\<close> whose cycle date
  lies within the window of row \<open>i\<close>'s own date, row \<open>i\<close> included; rows are
  counted pairwise, not by connected groups. In the example below four rows three
  days apart form one chain under a window of 3, yet the counts are 2, 3, 3, 2.
\<close>

theorem cluster_count_pairwise:
  "length (Cluster_Count df w) = length df \<and>
   (\<forall>i<length df. Cluster_Count df w ! i =
      int (card {j. j < length df \<and> \<bar>Cycle_Date (df ! i) - Cycle_Date (df ! j)\<bar> \<le> w})) \<and>
   (0 \<le> w \<longrightarrow> (\<forall>i<length df. 1 \<le> Cluster_Count df w ! i))"
proof (intro conjI allI impI)
  show "length (Cluster_Count df w) = length df"
    by (simp add: Cluster_Count_def)
next
  fix i assume "i < length df"
  then show "Cluster_Count df w ! i =
      int (card {j. j < length df \<and> \<bar>Cycle_Date (df ! i) - Cycle_Date (df ! j)\<bar> \<le> w})"
    by (rule Cluster_Count_nth)
next
  fix i assume w: "0 \<le> w" and i: "i < length df"
  let ?near = "{j. j < length df \<and> \<bar>Cycle_Date (df ! i) - Cycle_Date (df ! j)\<bar> \<le> w}"
  from w i have "i \<in> ?near"
    by simp
  moreover have "finite ?near"
    by simp
  ultimately have "0 < card ?near"
    by (auto simp: card_gt_0_iff)
  with i show "1 \<le> Cluster_Count df w ! i"
    by (simp add: Cluster_Count_nth)
qed

theorem cluster_count_pairwise_witness:
  "Cluster_Count
     [\<lparr>Swing = ''Swing 1'', Price = 0, Scaled_Price = 0, Divisor = 1,
       Angle = 15, Days = 0, Cycle_Date = 739348\<rparr>,
      \<lparr>Swing = ''Swing 2'', Price = 0, Scaled_Price = 0, Divisor = 1,
       Angle = 15, Days = 0, Cycle_Date = 739351\<rparr>,
      \<lparr>Swing = ''Swing 3'', Price = 0, Scaled_Price = 0, Divisor = 1,
       Angle = 15, Days = 0, Cycle_Date = 739354\<rparr>,
      \<lparr>Swing = ''Swing 3'', Price = 3, Scaled_Price = 3, Divisor = 1,
       Angle = 90, Days = 3, Cycle_Date = 739357\<rparr>] 3 = [2, 3, 3, 2] \<and>
   int (card {j. j < 4 \<and>
      \<bar>739348 - Cycle_Date
         ([\<lparr>Swing = ''Swing 1'', Price = 0, Scaled_Price = 0, Divisor = 1,
            Angle = 15, Days = 0, Cycle_Date = 739348\<rparr>,
           \<lparr>Swing = ''Swing 2'', Price = 0, Scaled_Price = 0, Divisor = 1,
            Angle = 15, Days = 0, Cycle_Date = 739351\<rparr>,
           \<lparr>Swing = ''Swing 3'', Price = 0, Scaled_Price = 0, Divisor = 1,
            Angle = 15, Days = 0, Cycle_Date = 739354\<rparr>,
           \<lparr>Swing = ''Swing 3'', Price = 3, Scaled_Price = 3, Divisor = 1,
            Angle = 90, Days = 3, Cycle_Date = 739357\<rparr>] ! j)\<bar> \<le> 3}) = 2"
  (is "Cluster_Count ?df 3 = _ \<and> _")
proof -
  have c: "Cluster_Count ?df 3 = [2, 3, 3, 2]"
    by (simp add: Cluster_Count_def)
  have l: "length ?df = 4" and s: "Cycle_Date (?df ! 0) = 739348"
    by simp_all
  then have "0 < length ?df"
    by simp
  with cluster_count_pairwise [of ?df 3]
  have "Cluster_Count ?df 3 ! 0 =
      int (card {j. j < length ?df \<and> \<bar>Cycle_Date (?df ! 0) - Cycle_Date (?df ! j)\<bar> \<le> 3})"
    by blast
  then have "Cluster_Count ?df 3 ! 0 =
      int (card {j. j < 4 \<and> \<bar>739348 - Cycle_Date (?df ! j)\<bar> \<le> 3})"
    unfolding l s .
  moreover have "Cluster_Count ?df 3 ! 0 = 2"
    by (simp only: c nth_Cons_0)
  ultimately have "int (card {j. j < 4 \<and> \<bar>739348 - Cycle_Date (?df ! j)\<bar> \<le> 3}) = 2"
    by (rule trans [OF sym])
  with c show ?thesis
    by (rule conjI)
qed

text \<open>
  C6: the flag computed by the nested loop and the count computed by the
  comprehension agree on every row: the flag is set, and the Cluster column reads
  YES, exactly when the cluster count is at least 2.
\<close>

theorem cluster_flag_iff_count:
  "length (cluster_flags df w) = length df \<and>
   length (Cluster df w) = length df \<and>
   length (Cluster_Count df w) = length df \<and>
   (\<forall>i<length df.
      (cluster_flags df w ! i \<longleftrightarrow> Cluster_Count df w ! i \<ge> 2) \<and>
      (Cluster df w ! i = ''YES'' \<longleftrightarrow> Cluster_Count df w ! i \<ge> 2))"
proof (intro conjI allI impI)
  show "length (cluster_flags df w) = length df"
    by (simp add: cluster_flags_map)
  then show "length (Cluster df w) = length df"
    by (simp add: Cluster_def)
  show "length (Cluster_Count df w) = length df"
    by (simp add: Cluster_Count_def)
next
  fix i assume i: "i < length df"
  then show f: "cluster_flags df w ! i \<longleftrightarrow> Cluster_Count df w ! i \<ge> 2"
    by (simp add: cluster_flags_map count_loop_card Cluster_Count_nth)
  from i have "Cluster df w ! i = (if cluster_flags df w ! i then ''YES'' else '''')"
    by (simp add: Cluster_def cluster_flags_map)
  with f show "Cluster df w ! i = ''YES'' \<longleftrightarrow> Cluster_Count df w ! i \<ge> 2"
    by simp
qed

theorem cluster_flag_iff_count_witness:
  "Cluster
     [\<lparr>Swing = ''Swing 1'', Price = 0, Scaled_Price = 0, Divisor = 1,
       Angle = 15, Days = 0, Cycle_Date = 739348\<rparr>,
      \<lparr>Swing = ''Swing 2'', Price = 0, Scaled_Price = 0, Divisor = 1,
       Angle = 15, Days = 0, Cycle_Date = 739351\<rparr>,
      \<lparr>Swing = ''Swing 3'', Price = 0, Scaled_Price = 0, Divisor = 1,
       Angle = 15, Days = 0, Cycle_Date = 739364\<rparr>] 3 = [''YES'', ''YES'', ''''] \<and>
   2 \<le> Cluster_Count
     [\<lparr>Swing = ''Swing 1'', Price = 0, Scaled_Price = 0, Divisor = 1,
       Angle = 15, Days = 0, Cycle_Date = 739348\<rparr>,
      \<lparr>Swing = ''Swing 2'', Price = 0, Scaled_Price = 0, Divisor = 1,
       Angle = 15, Days = 0, Cycle_Date = 739351\<rparr>,
      \<lparr>Swing = ''Swing 3'', Price = 0, Scaled_Price = 0, Divisor = 1,
       Angle = 15, Days = 0, Cycle_Date = 739364\<rparr>] 3 ! 0 \<and>
   \<not> 2 \<le> Cluster_Count
     [\<lparr>Swing = ''Swing 1'', Price = 0, Scaled_Price = 0, Divisor = 1,
       Angle = 15, Days = 0, Cycle_Date = 739348\<rparr>,
      \<lparr>Swing = ''Swing 2'', Price = 0, Scaled_Price = 0, Divisor = 1,
       Angle = 15, Days = 0, Cycle_Date = 739351\<rparr>,
      \<lparr>Swing = ''Swing 3'', Price = 0, Scaled_Price = 0, Divisor = 1,
       Angle = 15, Days = 0, Cycle_Date = 739364\<rparr>] 3 ! 2"
  (is "Cluster ?df 3 = _ \<and> _")
proof -
  have f: "Cluster ?df 3 = [''YES'', ''YES'', '''']"
    by (simp add: Cluster_def cluster_flags_def count_loop_def)
  have l: "0 < length ?df" "2 < length ?df"
    by simp_all
  note t = cluster_flag_iff_count [of ?df 3, THEN conjunct2, THEN conjunct2, THEN conjunct2,
      rule_format, THEN conjunct2]
  have "Cluster ?df 3 ! 0 = ''YES'' \<longleftrightarrow> 2 \<le> Cluster_Count ?df 3 ! 0"
    by (rule t [OF l(1)])
  moreover have "Cluster ?df 3 ! 2 = ''YES'' \<longleftrightarrow> 2 \<le> Cluster_Count ?df 3 ! 2"
    by (rule t [OF l(2)])
  moreover have "Cluster ?df 3 ! 0 = ''YES''" and "Cluster ?df 3 ! 2 \<noteq> ''YES''"
    by (simp_all only: f nth_Cons_0 nth_Cons_numeral) simp_all
  ultimately have "2 \<le> Cluster_Count ?df 3 ! 0" and "\<not> 2 \<le> Cluster_Count ?df 3 ! 2"
    by blast+
  with f show ?thesis
    by blast
qed

end
